theory Spec2Isabelle
  imports Complex_Main
begin

section \<open>Feed-forward classifiers: tensors, errors and library operations\<close>

text \<open>
  The development embeds \<^verbatim>\<open>model.py\<close>: the class \<^verbatim>\<open>LitGenericClassifier\<close> with its step
  functions, \<^verbatim>\<open>predict\<close> and \<^verbatim>\<open>transform_input\<close>, and the two subclasses
  \<^verbatim>\<open>LitSimpleClassifier\<close> and \<^verbatim>\<open>LitDigitsClassifier\<close>.

  Tensor entries are real numbers: rounding and overflow of the machine arithmetic are not part
  of the model. The values a division produces outside the reals (a division by zero, the
  standard deviation of fewer than two values) are kept as values of \<open>fval\<close>, since the
  library returns them silently instead of raising.
\<close>

datatype error = IndexError | RuntimeError | ValueError | ZeroDivisionError

datatype fval = Fin real | PosInf | NegInf | NaN

record 'a tensor =
  ncols :: nat
  rows :: "'a list list"

text \<open>A tensor of shape \<open>(B, d)\<close> has \<open>B\<close> rows, each of length \<open>d\<close>.\<close>

definition wf_tensor :: "'a tensor \<Rightarrow> bool" where
  "wf_tensor t = list_all (\<lambda>r. length r = ncols t) (rows t)"

definition shape :: "'a tensor \<Rightarrow> nat \<times> nat" where
  "shape t = (length (rows t), ncols t)"

definition col :: "'a tensor \<Rightarrow> nat \<Rightarrow> 'a list" where
  "col t j = map (\<lambda>r. r ! j) (rows t)"

type_synonym batch = "real tensor \<times> int list"

subsection \<open>Arithmetic with the non-finite results of division\<close>

fun fsub :: "real \<Rightarrow> fval \<Rightarrow> fval" where
  "fsub v (Fin m) = Fin (v - m)"
| "fsub v PosInf = NegInf"
| "fsub v NegInf = PosInf"
| "fsub v NaN = NaN"

definition rdiv :: "real \<Rightarrow> real \<Rightarrow> fval" where
  "rdiv a b = (if b \<noteq> 0 then Fin (a / b)
               else if a = 0 then NaN else if 0 < a then PosInf else NegInf)"

fun fdivide :: "fval \<Rightarrow> fval \<Rightarrow> fval" where
  "fdivide (Fin a) (Fin b) = rdiv a b"
| "fdivide (Fin a) PosInf = Fin 0"
| "fdivide (Fin a) NegInf = Fin 0"
| "fdivide PosInf (Fin b) = (if 0 \<le> b then PosInf else NegInf)"
| "fdivide NegInf (Fin b) = (if 0 \<le> b then NegInf else PosInf)"
| "fdivide _ _ = NaN"

subsection \<open>Reductions of the tensor library\<close>

text \<open>\<^verbatim>\<open>mean\<close>: the sum over the count; NaN on no element.\<close>

definition torch_mean :: "real list \<Rightarrow> fval" where
  "torch_mean xs = rdiv (sum_list xs) (real (length xs))"

text \<open>
  \<^verbatim>\<open>std\<close> with its default correction of one: the square root of the sum of squared
  deviations over \<open>N - 1\<close>; NaN on fewer than two elements.
\<close>

definition torch_std :: "real list \<Rightarrow> fval" where
  "torch_std xs =
     (if length xs \<le> 1 then NaN
      else Fin (sqrt (sum_list (map (\<lambda>v. (v - sum_list xs / real (length xs))\<^sup>2) xs)
                      / (real (length xs) - 1))))"

text \<open>
  \<^verbatim>\<open>median\<close>: for an even number of elements the lower of the two middle values.
\<close>

definition torch_median :: "real list \<Rightarrow> real" where
  "torch_median xs = sort xs ! ((length xs - 1) div 2)"

text \<open>
  \<^verbatim>\<open>torch.median(x, dim=0).values\<close>: one median per column; a reduction over a dimension
  of size zero raises.
\<close>

definition median_dim0 :: "real tensor \<Rightarrow> error + real list" where
  "median_dim0 x =
     (if rows x = [] then Inl IndexError
      else Inr (map (\<lambda>j. torch_median (col x j)) [0..<ncols x]))"

text \<open>
  \<^verbatim>\<open>torch.argmax\<close> returns the index of the first maximal value.
\<close>

primrec first_index :: "'a list \<Rightarrow> 'a \<Rightarrow> nat" where
  "first_index [] v = 0"
| "first_index (x # xs) v = (if x = v then 0 else Suc (first_index xs v))"

definition argmax_row :: "real list \<Rightarrow> nat" where
  "argmax_row r = first_index r (Max (set r))"

definition argmax_dim1 :: "real tensor \<Rightarrow> error + nat list" where
  "argmax_dim1 t =
     (if ncols t = 0 then Inl IndexError else Inr (map argmax_row (rows t)))"

subsection \<open>Masked assignment\<close>

text \<open>
  \<^verbatim>\<open>x[mask] = v\<close> with a boolean mask of the shape of \<open>x\<close> and a one-dimensional \<open>v\<close>:
  the selected entries, taken in row-major order, form a vector of \<open>k\<close> elements, and \<open>v\<close>
  must broadcast to it. A \<open>v\<close> of one element is written to every selected entry; a \<open>v\<close>
  of \<open>k\<close> elements is written element by element in that order; any other length raises
  and leaves \<open>x\<close> as it was.
\<close>

definition count_true :: "bool list \<Rightarrow> nat" where
  "count_true ms = length (filter (\<lambda>m. m) ms)"

definition rank_before :: "bool list list \<Rightarrow> nat \<Rightarrow> nat \<Rightarrow> nat" where
  "rank_before msk i j = count_true (concat (take i msk)) + count_true (take j (msk ! i))"

definition masked_assign :: "real tensor \<Rightarrow> bool list list \<Rightarrow> real list \<Rightarrow> error + real tensor" where
  "masked_assign x msk v =
     (if length v = 1 \<or> length v = count_true (concat msk)
      then Inr (x\<lparr>rows :=
             map (\<lambda>i. map (\<lambda>j. if msk ! i ! j
                                 then (if length v = 1 then v ! 0 else v ! rank_before msk i j)
                                 else rows x ! i ! j)
                           [0..<length (rows x ! i)])
                 [0..<length (rows x)]\<rparr>)
      else Inl RuntimeError)"

section \<open>The models\<close>

text \<open>
  A module of \<^verbatim>\<open>nn.Sequential\<close>: \<^verbatim>\<open>nn.Linear(n, m)\<close> with its weight of shape \<open>(m, n)\<close>
  and its bias of length \<open>m\<close>, or \<^verbatim>\<open>nn.ReLU()\<close>.
\<close>

datatype module = Linear nat nat "real list list" "real list" | ReLU

definition linear_ok :: "nat \<Rightarrow> nat \<Rightarrow> real list list \<Rightarrow> real list \<Rightarrow> bool" where
  "linear_ok n m W b = (length W = m \<and> list_all (\<lambda>w. length w = n) W \<and> length b = m)"

definition dot :: "real list \<Rightarrow> real list \<Rightarrow> real" where
  "dot w r = sum_list (map2 (*) w r)"

definition affine :: "real list list \<Rightarrow> real list \<Rightarrow> real list \<Rightarrow> real list" where
  "affine W b r = map2 (+) (map (\<lambda>w. dot w r) W) b"

definition relu :: "real list \<Rightarrow> real list" where
  "relu r = map (max 0) r"

fun apply_module :: "module \<Rightarrow> real tensor \<Rightarrow> error + real tensor" where
  "apply_module (Linear n m W b) t =
     (if ncols t \<noteq> n then Inl RuntimeError
      else Inr \<lparr>ncols = m, rows = map (affine W b) (rows t)\<rparr>)"
| "apply_module ReLU t = Inr (t\<lparr>rows := map relu (rows t)\<rparr>)"

fun forward :: "module list \<Rightarrow> real tensor \<Rightarrow> error + real tensor" where
  "forward [] t = Inr t"
| "forward (m # ms) t =
     (case apply_module m t of Inl e \<Rightarrow> Inl e | Inr t' \<Rightarrow> forward ms t')"

datatype variant = Generic | Simple | Digits

record classifier =
  lr :: real
  kind :: variant
  model :: "module list"

definition LitGenericClassifier :: "real \<Rightarrow> classifier" where
  "LitGenericClassifier l = \<lparr>lr = l, kind = Generic, model = []\<rparr>"

definition LitSimpleClassifier ::
  "real \<Rightarrow> real list list \<Rightarrow> real list \<Rightarrow> real list list \<Rightarrow> real list
        \<Rightarrow> real list list \<Rightarrow> real list \<Rightarrow> classifier" where
  "LitSimpleClassifier l W1 b1 W2 b2 W3 b3 =
     \<lparr>lr = l, kind = Simple,
      model = [Linear 2 32 W1 b1, ReLU, Linear 32 64 W2 b2, ReLU, Linear 64 4 W3 b3]\<rparr>"

definition LitDigitsClassifier ::
  "real \<Rightarrow> real list list \<Rightarrow> real list \<Rightarrow> real list list \<Rightarrow> real list
        \<Rightarrow> real list list \<Rightarrow> real list \<Rightarrow> real list list \<Rightarrow> real list \<Rightarrow> classifier" where
  "LitDigitsClassifier l W1 b1 W2 b2 W3 b3 W4 b4 =
     \<lparr>lr = l, kind = Digits,
      model = [Linear 64 512 W1 b1, ReLU, Linear 512 128 W2 b2, ReLU,
               Linear 128 64 W3 b3, ReLU, Linear 64 10 W4 b4]\<rparr>"

section \<open>Preprocessing\<close>

text \<open>
  \<^verbatim>\<open>LitGenericClassifier.transform_input\<close>. The masked assignment writes into the tensor the
  caller passed, so the function returns its result together with the contents of that
  tensor after the call.
\<close>

definition is_outlier :: "real tensor \<Rightarrow> real list \<Rightarrow> bool list list" where
  "is_outlier x median =
     map (\<lambda>r. map (\<lambda>j. r ! j - median ! j > 4 * median ! j) [0..<length r]) (rows x)"

definition standardize_dim0 :: "real tensor \<Rightarrow> fval tensor" where
  "standardize_dim0 x =
     \<lparr>ncols = ncols x,
      rows = map (\<lambda>r. map (\<lambda>j. fdivide (fsub (r ! j) (torch_mean (col x j))) (torch_std (col x j)))
                           [0..<length r])
                 (rows x)\<rparr>"

definition generic_transform_input :: "batch \<Rightarrow> (error + fval tensor \<times> int list) \<times> real tensor" where
  "generic_transform_input bt =
     (case bt of (x, y) \<Rightarrow>
        (case median_dim0 x of
           Inl e \<Rightarrow> (Inl e, x)
         | Inr median \<Rightarrow>
             (case masked_assign x (is_outlier x median) median of
                Inl e \<Rightarrow> (Inl e, x)
              | Inr x' \<Rightarrow> (Inr (standardize_dim0 x', y), x'))))"

text \<open>\<^verbatim>\<open>LitSimpleClassifier.transform_input\<close>: \<^verbatim>\<open>return batch\<close>.\<close>

definition simple_transform_input :: "batch \<Rightarrow> batch" where
  "simple_transform_input bt = bt"

text \<open>
  \<^verbatim>\<open>LitDigitsClassifier.transform_input\<close>: the mean and the standard deviation are taken over
  all the entries of the tensor; a new tensor is built and the argument is left alone.
\<close>

definition digits_transform_input :: "batch \<Rightarrow> fval tensor \<times> int list" where
  "digits_transform_input bt =
     (case bt of (x, y) \<Rightarrow>
        (\<lparr>ncols = ncols x,
          rows = map (map (\<lambda>v. fdivide (fsub v (torch_mean (concat (rows x))))
                                        (torch_std (concat (rows x)))))
                     (rows x)\<rparr>, y))"

text \<open>
  The call \<^verbatim>\<open>self.transform_input(batch=batch)\<close> of a step function, dispatched on the class
  of \<^verbatim>\<open>self\<close>. The step keeps nothing of the returned pair, so what is left of the call
  is whether it raised and what the caller's feature tensor holds afterwards.
\<close>

definition transform_input_call :: "variant \<Rightarrow> batch \<Rightarrow> (error + unit) \<times> real tensor" where
  "transform_input_call v bt =
     (case v of
        Generic \<Rightarrow> (case generic_transform_input bt of
                      (Inl e, x') \<Rightarrow> (Inl e, x')
                    | (Inr _, x') \<Rightarrow> (Inr (), x'))
      | Simple \<Rightarrow> (Inr (), fst (simple_transform_input bt))
      | Digits \<Rightarrow> (case digits_transform_input bt of _ \<Rightarrow> (Inr (), fst bt)))"

section \<open>Loss, accuracy and the step functions\<close>

text \<open>
  \<^verbatim>\<open>(y_pred_labels == y).sum().item()\<close>: the comparison broadcasts a vector of one element
  and raises on two different lengths otherwise.
\<close>

definition eq_sum :: "nat list \<Rightarrow> int list \<Rightarrow> error + nat" where
  "eq_sum p y =
     (if length p = length y then Inr (length (filter (\<lambda>(a, b). int a = b) (zip p y)))
      else if length y = 1 then Inr (length (filter (\<lambda>a. int a = y ! 0) p))
      else if length p = 1 then Inr (length (filter (\<lambda>b. int (p ! 0) = b) y))
      else Inl RuntimeError)"

text \<open>\<^verbatim>\<open>correct_predictions / total_predictions\<close> on two Python integers.\<close>

definition py_truediv :: "nat \<Rightarrow> nat \<Rightarrow> error + real" where
  "py_truediv a b = (if b = 0 then Inl ZeroDivisionError else Inr (real a / real b))"

text \<open>
  \<^verbatim>\<open>nn.CrossEntropyLoss()\<close> with its defaults: the mean, over the targets different from
  the ignored index \<open>-100\<close>, of the negative log-softmax of the logits at the target.
\<close>

definition nll :: "real list \<Rightarrow> nat \<Rightarrow> real" where
  "nll r c = ln (sum_list (map exp r)) - r ! c"

definition loss_func :: "real tensor \<Rightarrow> int list \<Rightarrow> error + fval" where
  "loss_func y_pred y =
     (if length (rows y_pred) \<noteq> length y then Inl ValueError
      else if \<not> list_all (\<lambda>c. c = - 100 \<or> (0 \<le> c \<and> c < int (ncols y_pred))) y then Inl IndexError
      else (let kept = filter (\<lambda>(r, c). c \<noteq> - 100) (zip (rows y_pred) y)
            in Inr (rdiv (sum_list (map (\<lambda>(r, c). nll r (nat c)) kept)) (real (length kept)))))"

text \<open>
  The accuracy lines of the step functions, from the arg-max to
  \<^verbatim>\<open>acc = correct_predictions / total_predictions\<close>.
\<close>

definition accuracy :: "real tensor \<Rightarrow> int list \<Rightarrow> error + real" where
  "accuracy y_pred y =
     (case argmax_dim1 y_pred of Inl e \<Rightarrow> Inl e | Inr y_pred_labels \<Rightarrow>
     (case eq_sum y_pred_labels y of Inl e \<Rightarrow> Inl e | Inr correct_predictions \<Rightarrow>
        py_truediv correct_predictions (length y)))"

text \<open>Lines shared by the three step functions, from \<^verbatim>\<open>y_pred = self.model(x)\<close> to the loss.\<close>

definition loss_and_acc :: "module list \<Rightarrow> batch \<Rightarrow> error + fval \<times> real" where
  "loss_and_acc ms bt =
     (case bt of (x, y) \<Rightarrow>
        (case forward ms x of Inl e \<Rightarrow> Inl e | Inr y_pred \<Rightarrow>
        (case accuracy y_pred y of Inl e \<Rightarrow> Inl e | Inr acc \<Rightarrow>
        (case loss_func y_pred y of Inl e \<Rightarrow> Inl e | Inr loss \<Rightarrow> Inr (loss, acc)))))"

text \<open>
  What a step hands back: the returned values and the metrics it logged. Each step function
  returns this with the contents of the caller's feature tensor after the call.
\<close>

record step_result =
  returned :: "(string \<times> fval) list"
  logged :: "(string \<times> fval) list"

definition step_body ::
  "(fval \<Rightarrow> real \<Rightarrow> step_result) \<Rightarrow> classifier \<Rightarrow> real tensor \<Rightarrow> int list
     \<Rightarrow> (error + step_result) \<times> real tensor" where
  "step_body out c x y =
     (case loss_and_acc (model c) (x, y) of
        Inl e \<Rightarrow> (Inl e, x)
      | Inr (loss, acc) \<Rightarrow> (Inr (out loss acc), x))"

definition step ::
  "(fval \<Rightarrow> real \<Rightarrow> step_result) \<Rightarrow> classifier \<Rightarrow> batch \<Rightarrow> (error + step_result) \<times> real tensor" where
  "step out c bt =
     (case transform_input_call (kind c) bt of
        (Inl e, x') \<Rightarrow> (Inl e, x')
      | (Inr _, x') \<Rightarrow> step_body out c x' (snd bt))"

definition train_out :: "fval \<Rightarrow> real \<Rightarrow> step_result" where
  "train_out loss acc =
     \<lparr>returned = [(''loss'', loss)],
      logged = [(''train_loss'', loss), (''train_acc'', Fin acc)]\<rparr>"

definition valid_out :: "fval \<Rightarrow> real \<Rightarrow> step_result" where
  "valid_out loss acc =
     \<lparr>returned = [(''valid_loss'', loss), (''valid_acc'', Fin acc)],
      logged = [(''valid_loss'', loss), (''valid_acc'', Fin acc)]\<rparr>"

definition test_out :: "fval \<Rightarrow> real \<Rightarrow> step_result" where
  "test_out loss acc =
     \<lparr>returned = [(''test_loss'', loss), (''test_acc'', Fin acc)],
      logged = [(''test_loss'', loss), (''test_acc'', Fin acc)]\<rparr>"

definition training_step :: "classifier \<Rightarrow> batch \<Rightarrow> (error + step_result) \<times> real tensor" where
  "training_step = step train_out"

definition validation_step :: "classifier \<Rightarrow> batch \<Rightarrow> (error + step_result) \<times> real tensor" where
  "validation_step = step valid_out"

definition test_step :: "classifier \<Rightarrow> batch \<Rightarrow> (error + step_result) \<times> real tensor" where
  "test_step = step test_out"

text \<open>The same step functions with the line that calls \<^verbatim>\<open>transform_input\<close> left out.\<close>

definition training_step_no_transform ::
  "classifier \<Rightarrow> batch \<Rightarrow> (error + step_result) \<times> real tensor" where
  "training_step_no_transform c bt = step_body train_out c (fst bt) (snd bt)"

definition validation_step_no_transform ::
  "classifier \<Rightarrow> batch \<Rightarrow> (error + step_result) \<times> real tensor" where
  "validation_step_no_transform c bt = step_body valid_out c (fst bt) (snd bt)"

definition test_step_no_transform ::
  "classifier \<Rightarrow> batch \<Rightarrow> (error + step_result) \<times> real tensor" where
  "test_step_no_transform c bt = step_body test_out c (fst bt) (snd bt)"

text \<open>\<^verbatim>\<open>predict\<close>: the model on \<open>x\<close> as given, then the arg-max of each row.\<close>

definition predict :: "classifier \<Rightarrow> real tensor \<Rightarrow> error + nat list" where
  "predict c x =
     (case forward (model c) x of Inl e \<Rightarrow> Inl e | Inr y_pred \<Rightarrow> argmax_dim1 y_pred)"

text \<open>
  The statistics of the digits variant in the specification's words: the mean and the standard
  deviation across the whole feature tensor, all \<open>B * d\<close> entries together.
\<close>

definition global_mean :: "real tensor \<Rightarrow> real" where
  "global_mean x = (\<Sum>r\<leftarrow>rows x. sum_list r) / real (length (rows x) * ncols x)"

definition global_std :: "real tensor \<Rightarrow> real" where
  "global_std x =
     sqrt ((\<Sum>r\<leftarrow>rows x. \<Sum>v\<leftarrow>r. (v - global_mean x)\<^sup>2)
           / (real (length (rows x) * ncols x) - 1))"

section \<open>Well-shaped models\<close>

text \<open>
  A stack of modules fits an input of \<open>d\<close> columns when every \<^verbatim>\<open>nn.Linear(n, m)\<close> receives
  \<open>n\<close> columns and holds a weight of shape \<open>(m, n)\<close> and a bias of length \<open>m\<close>, as its
  constructor builds them; the optimizer changes the values only.
\<close>

fun wf_modules :: "nat \<Rightarrow> module list \<Rightarrow> bool" where
  "wf_modules d [] = True"
| "wf_modules d (Linear n m W b # ms) = (d = n \<and> linear_ok n m W b \<and> wf_modules m ms)"
| "wf_modules d (ReLU # ms) = wf_modules d ms"

fun out_dim :: "nat \<Rightarrow> module list \<Rightarrow> nat" where
  "out_dim d [] = d"
| "out_dim d (Linear n m W b # ms) = out_dim m ms"
| "out_dim d (ReLU # ms) = out_dim d ms"

text \<open>
  \<open>built c d C\<close>: \<open>c\<close> is an instance of one of the two subclasses, with parameters of the
  shapes its constructor gives them, taking \<open>d\<close> features to \<open>C\<close> classes.
\<close>

inductive built :: "classifier \<Rightarrow> nat \<Rightarrow> nat \<Rightarrow> bool" where
  simple:
    "linear_ok 2 32 W1 b1 \<Longrightarrow> linear_ok 32 64 W2 b2 \<Longrightarrow> linear_ok 64 4 W3 b3 \<Longrightarrow>
     built (LitSimpleClassifier l W1 b1 W2 b2 W3 b3) 2 4"
| digits:
    "linear_ok 64 512 W1 b1 \<Longrightarrow> linear_ok 512 128 W2 b2 \<Longrightarrow> linear_ok 128 64 W3 b3 \<Longrightarrow>
     linear_ok 64 10 W4 b4 \<Longrightarrow>
     built (LitDigitsClassifier l W1 b1 W2 b2 W3 b3 W4 b4) 64 10"

section \<open>Example instances\<close>

text \<open>
  Parameters of the constructed shapes with every weight and bias zero, and the batch of the
  specification's scenario.
\<close>

definition zeros :: "nat \<Rightarrow> nat \<Rightarrow> real list list" where
  "zeros m n = replicate m (replicate n 0)"

definition simple_example :: classifier where
  "simple_example =
     LitSimpleClassifier 0 (zeros 32 2) (replicate 32 0) (zeros 64 32) (replicate 64 0)
       (zeros 4 64) (replicate 4 0)"

definition digits_example :: classifier where
  "digits_example =
     LitDigitsClassifier 0 (zeros 512 64) (replicate 512 0) (zeros 128 512) (replicate 128 0)
       (zeros 64 128) (replicate 64 0) (zeros 10 64) (replicate 10 0)"

definition x_example :: "real tensor" where
  "x_example = \<lparr>ncols = 2, rows = [[1, 2], [3, 4]]\<rparr>"

definition x_digits_example :: "real tensor" where
  "x_digits_example = \<lparr>ncols = 64, rows = [replicate 64 1]\<rparr>"

definition x_empty :: "real tensor" where
  "x_empty = \<lparr>ncols = 2, rows = []\<rparr>"

text \<open>
  An instance of the base class itself, whose model is the empty \<^verbatim>\<open>nn.Sequential()\<close>, and a
  batch whose first row exceeds five times the median in both columns.
\<close>

definition generic_example :: classifier where
  "generic_example = LitGenericClassifier 0"

definition x_outlier :: "real tensor" where
  "x_outlier = \<lparr>ncols = 2, rows = [[50, 100], [1, 1], [1, 1]]\<rparr>"

definition x_clipped :: "real tensor" where
  "x_clipped = \<lparr>ncols = 2, rows = [[1, 1], [1, 1], [1, 1]]\<rparr>"





text \<open>A batch of two columns with a single entry above five times its column's median.\<close>

definition x_one_outlier :: "real tensor" where
  "x_one_outlier = \<lparr>ncols = 2, rows = [[100, 1], [1, 1], [1, 1]]\<rparr>"

text \<open>What a step function hands to its caller: the value it returns, or the error it raises.\<close>

definition returned_of :: "(error + step_result) \<times> real tensor \<Rightarrow> error + (string \<times> fval) list" where
  "returned_of r = (case fst r of Inl e \<Rightarrow> Inl e | Inr s \<Rightarrow> Inr (returned s))"

section \<open>Shapes through the model\<close>

lemma affine_length: "linear_ok n m W b \<Longrightarrow> length (affine W b r) = m"
  by (simp add: linear_ok_def affine_def)

lemma relu_length: "length (relu r) = length r"
  by (simp add: relu_def)

lemma forward_wf:
  "wf_modules d ms \<Longrightarrow> ncols t = d \<Longrightarrow> wf_tensor t \<Longrightarrow>
   \<exists>t'. forward ms t = Inr t' \<and> wf_tensor t' \<and> ncols t' = out_dim d ms
        \<and> length (rows t') = length (rows t)"
proof (induction ms arbitrary: d t)
  case Nil
  then show ?case by simp
next
  case (Cons md ms)
  show ?case
  proof (cases md)
    case (Linear n m W b)
    with Cons.prems have h: "d = n" "linear_ok n m W b" "wf_modules m ms" by simp_all
    let ?t = "\<lparr>ncols = m, rows = map (affine W b) (rows t)\<rparr>"
    have "wf_tensor ?t" using h by (simp add: wf_tensor_def list_all_iff affine_length)
    from Cons.IH[OF h(3) _ this] Linear h Cons.prems show ?thesis by simp
  next
    case ReLU
    let ?t = "t\<lparr>rows := map relu (rows t)\<rparr>"
    have "wf_tensor ?t" using Cons.prems by (simp add: wf_tensor_def list_all_iff relu_length)
    from Cons.IH[of d ?t] this ReLU Cons.prems show ?thesis by simp
  qed
qed

lemma built_wf:
  "built c d C \<Longrightarrow> wf_modules d (model c) \<and> out_dim d (model c) = C \<and> 0 < C \<and> kind c \<noteq> Generic"
  by (induction rule: built.induct)
     (simp_all add: LitSimpleClassifier_def LitDigitsClassifier_def)

lemma built_forward:
  assumes "built c d C" "wf_tensor x" "ncols x = d"
  shows "\<exists>logits. forward (model c) x = Inr logits \<and> wf_tensor logits \<and> ncols logits = C
           \<and> length (rows logits) = length (rows x)"
  using forward_wf[of d "model c" x] built_wf[OF assms(1)] assms(2,3) by auto

lemma linear_ok_zeros: "linear_ok n m (zeros m n) (replicate m 0)"
  by (simp add: linear_ok_def zeros_def list_all_iff)

lemma built_simple_example: "built simple_example 2 4"
  unfolding simple_example_def by (intro built.simple linear_ok_zeros)

lemma built_digits_example: "built digits_example 64 10"
  unfolding digits_example_def by (intro built.digits linear_ok_zeros)

lemma wf_x_example: "wf_tensor x_example"
  by (simp add: x_example_def wf_tensor_def)

lemma wf_x_digits_example: "wf_tensor x_digits_example"
  by (simp add: x_digits_example_def wf_tensor_def)

text \<open>
  C5. For a feature tensor of shape \<open>(B, 2)\<close> the forward pass of the simple variant returns
  logits of shape \<open>(B, 4)\<close>, each row being the affine stack 2 \<rightarrow> 32 \<rightarrow> 64 \<rightarrow> 4 with a ReLU after
  each hidden affine layer and none on the output; for a feature tensor of shape \<open>(B, 64)\<close>
  the digits variant returns logits of shape \<open>(B, 10)\<close>, each row being the affine stack
  64 \<rightarrow> 512 \<rightarrow> 128 \<rightarrow> 64 \<rightarrow> 10 with a ReLU after each hidden affine layer and none on the output.
\<close>

theorem forward_logits_shape:
  "(linear_ok 2 32 W1 b1 \<and> linear_ok 32 64 W2 b2 \<and> linear_ok 64 4 W3 b3
      \<and> wf_tensor x \<and> ncols x = 2 \<longrightarrow>
    (\<exists>logits. forward (model (LitSimpleClassifier l W1 b1 W2 b2 W3 b3)) x = Inr logits
        \<and> wf_tensor logits \<and> shape logits = (length (rows x), 4)
        \<and> rows logits =
            map (\<lambda>r. affine W3 b3 (relu (affine W2 b2 (relu (affine W1 b1 r))))) (rows x)))
   \<and> (linear_ok 64 512 V1 c1 \<and> linear_ok 512 128 V2 c2 \<and> linear_ok 128 64 V3 c3
      \<and> linear_ok 64 10 V4 c4 \<and> wf_tensor z \<and> ncols z = 64 \<longrightarrow>
    (\<exists>logits. forward (model (LitDigitsClassifier l' V1 c1 V2 c2 V3 c3 V4 c4)) z = Inr logits
        \<and> wf_tensor logits \<and> shape logits = (length (rows z), 10)
        \<and> rows logits =
            map (\<lambda>r. affine V4 c4 (relu (affine V3 c3 (relu (affine V2 c2
                        (relu (affine V1 c1 r))))))) (rows z)))"
  using affine_length[of 64 4 W3 b3] affine_length[of 64 10 V4 c4]
  by (simp add: LitSimpleClassifier_def LitDigitsClassifier_def shape_def wf_tensor_def
        list_all_iff)

theorem forward_logits_shape_witness:
  "(linear_ok 2 32 (zeros 32 2) (replicate 32 0) \<and> linear_ok 32 64 (zeros 64 32) (replicate 64 0)
      \<and> linear_ok 64 4 (zeros 4 64) (replicate 4 0) \<and> wf_tensor x_example \<and> ncols x_example = 2)
   \<and> (\<exists>logits. forward (model simple_example) x_example = Inr logits
        \<and> wf_tensor logits \<and> shape logits = (2, 4))
   \<and> (linear_ok 64 512 (zeros 512 64) (replicate 512 0)
      \<and> linear_ok 512 128 (zeros 128 512) (replicate 128 0)
      \<and> linear_ok 128 64 (zeros 64 128) (replicate 64 0)
      \<and> linear_ok 64 10 (zeros 10 64) (replicate 10 0)
      \<and> wf_tensor x_digits_example \<and> ncols x_digits_example = 64)
   \<and> (\<exists>logits. forward (model digits_example) x_digits_example = Inr logits
        \<and> wf_tensor logits \<and> shape logits = (1, 10))"
proof -
  have s: "linear_ok 2 32 (zeros 32 2) (replicate 32 0) \<and> linear_ok 32 64 (zeros 64 32) (replicate 64 0)
      \<and> linear_ok 64 4 (zeros 4 64) (replicate 4 0) \<and> wf_tensor x_example \<and> ncols x_example = 2"
    by (simp add: linear_ok_zeros wf_x_example) (simp add: x_example_def)
  have d: "linear_ok 64 512 (zeros 512 64) (replicate 512 0)
      \<and> linear_ok 512 128 (zeros 128 512) (replicate 128 0)
      \<and> linear_ok 128 64 (zeros 64 128) (replicate 64 0)
      \<and> linear_ok 64 10 (zeros 10 64) (replicate 10 0)
      \<and> wf_tensor x_digits_example \<and> ncols x_digits_example = 64"
    by (simp add: linear_ok_zeros wf_x_digits_example) (simp add: x_digits_example_def)
  note t = forward_logits_shape[of "zeros 32 2" "replicate 32 0" "zeros 64 32" "replicate 64 0"
      "zeros 4 64" "replicate 4 0" x_example 0
      "zeros 512 64" "replicate 512 0" "zeros 128 512" "replicate 128 0"
      "zeros 64 128" "replicate 64 0" "zeros 10 64" "replicate 10 0" x_digits_example 0]
  from t s have a: "\<exists>logits. forward (model simple_example) x_example = Inr logits
        \<and> wf_tensor logits \<and> shape logits = (2, 4)"
    unfolding simple_example_def by (auto simp: x_example_def)
  from t d have b: "\<exists>logits. forward (model digits_example) x_digits_example = Inr logits
        \<and> wf_tensor logits \<and> shape logits = (1, 10)"
    unfolding digits_example_def by (auto simp: x_digits_example_def)
  from s a d b show ?thesis by blast
qed

section \<open>Prediction\<close>

lemma first_index_mem:
  "v \<in> set r \<Longrightarrow> first_index r v < length r \<and> r ! first_index r v = v"
  by (induction r) auto

lemma first_index_before: "j < first_index r v \<Longrightarrow> r ! j \<noteq> v"
proof (induction r arbitrary: j)
  case Nil then show ?case by simp
next
  case (Cons a r)
  then show ?case by (cases j) (auto split: if_splits)
qed

lemma argmax_row_props:
  assumes "r \<noteq> []"
  shows "argmax_row r < length r" "r ! argmax_row r = Max (set r)"
    "\<forall>j < argmax_row r. r ! j < r ! argmax_row r"
proof -
  have m: "Max (set r) \<in> set r" using assms by (simp add: Max_in)
  from first_index_mem[OF m] show a: "argmax_row r < length r"
    and b: "r ! argmax_row r = Max (set r)" by (simp_all add: argmax_row_def)
  show "\<forall>j < argmax_row r. r ! j < r ! argmax_row r"
  proof (intro allI impI)
    fix j assume j: "j < argmax_row r"
    then have "r ! j \<noteq> Max (set r)" using first_index_before by (simp add: argmax_row_def)
    moreover have "r ! j \<le> Max (set r)" using j a by simp
    ultimately show "r ! j < r ! argmax_row r" using b by simp
  qed
qed

text \<open>The zero-parameter instance sends every row to zero logits and predicts class 0.\<close>

lemma dot_zero: "dot (replicate n 0) r = 0"
proof (induction n arbitrary: r)
  case 0 then show ?case by (simp add: dot_def)
next
  case (Suc n)
  then show ?case by (cases r) (simp_all add: dot_def)
qed

lemma affine_zeros: "affine (zeros m n) (replicate m 0) r = replicate m 0"
  by (simp add: affine_def zeros_def dot_zero zip_replicate)

lemma relu_zeros: "relu (replicate m 0) = replicate m 0"
  by (simp add: relu_def)

lemma argmax_row_replicate: "0 < n \<Longrightarrow> argmax_row (replicate n v) = 0"
proof -
  assume "0 < n"
  then have "set (replicate n v) = {v}" by auto
  then have "Max (set (replicate n v)) = v" by simp
  with \<open>0 < n\<close> show ?thesis by (cases n) (simp_all add: argmax_row_def)
qed

lemma forward_simple_example:
  "ncols x = 2 \<Longrightarrow>
   forward (model simple_example) x = Inr \<lparr>ncols = 4, rows = map (\<lambda>r. replicate 4 0) (rows x)\<rparr>"
  by (simp add: simple_example_def LitSimpleClassifier_def affine_zeros relu_zeros)

lemma predict_simple_example:
  "ncols x = 2 \<Longrightarrow> predict simple_example x = Inr (map (\<lambda>r. 0) (rows x))"
  by (simp add: predict_def forward_simple_example argmax_dim1_def argmax_row_replicate)

lemma predict_x_example: "predict simple_example x_example = Inr [0, 0]"
  using predict_simple_example[of x_example] by (simp add: x_example_def)

text \<open>
  C6. For a feature tensor \<open>x\<close> of the model's input dimension, \<^verbatim>\<open>predict\<close> returns a
  label sequence with one entry per row of \<open>x\<close>; the \<open>i\<close>-th entry is the arg-max (the first
  index of the greatest value) of the \<open>i\<close>-th row of the logits the model computes on \<open>x\<close>
  itself, with no preprocessing, and so lies in \<open>[0, C)\<close>.
\<close>

theorem predict_argmax:
  assumes "built c d C" "wf_tensor x" "ncols x = d"
  shows "\<exists>logits labels. forward (model c) x = Inr logits \<and> predict c x = Inr labels
           \<and> length labels = length (rows x)
           \<and> (\<forall>i < length (rows x).
                 labels ! i < C
               \<and> labels ! i = argmax_row (rows logits ! i)
               \<and> rows logits ! i ! (labels ! i) = Max (set (rows logits ! i))
               \<and> (\<forall>j < labels ! i. rows logits ! i ! j < rows logits ! i ! (labels ! i)))"
proof -
  from built_forward[OF assms] obtain logits where
    f: "forward (model c) x = Inr logits" and w: "wf_tensor logits" and n: "ncols logits = C"
    and l: "length (rows logits) = length (rows x)" by blast
  have C: "0 < C" using built_wf[OF assms(1)] by simp
  let ?labels = "map argmax_row (rows logits)"
  have p: "predict c x = Inr ?labels" using f n C by (simp add: predict_def argmax_dim1_def)
  have "\<forall>i < length (rows x).
           ?labels ! i < C \<and> ?labels ! i = argmax_row (rows logits ! i)
         \<and> rows logits ! i ! (?labels ! i) = Max (set (rows logits ! i))
         \<and> (\<forall>j < ?labels ! i. rows logits ! i ! j < rows logits ! i ! (?labels ! i))"
  proof (intro allI impI)
    fix i assume i: "i < length (rows x)"
    then have len: "length (rows logits ! i) = C"
      using w n l by (simp add: wf_tensor_def list_all_length)
    then have ne: "rows logits ! i \<noteq> []" using C by auto
    from argmax_row_props[OF ne] len i l
    show "?labels ! i < C \<and> ?labels ! i = argmax_row (rows logits ! i)
         \<and> rows logits ! i ! (?labels ! i) = Max (set (rows logits ! i))
         \<and> (\<forall>j < ?labels ! i. rows logits ! i ! j < rows logits ! i ! (?labels ! i))"
      by simp
  qed
  with f p l show ?thesis by (intro exI[of _ logits] exI[of _ ?labels]) auto
qed

theorem predict_argmax_witness:
  "built simple_example 2 4 \<and> wf_tensor x_example \<and> ncols x_example = 2
   \<and> (\<exists>logits labels. forward (model simple_example) x_example = Inr logits
         \<and> predict simple_example x_example = Inr labels \<and> length labels = 2
         \<and> labels ! 0 < 4 \<and> labels ! 1 < 4
         \<and> labels ! 0 = argmax_row (rows logits ! 0)
         \<and> labels ! 1 = argmax_row (rows logits ! 1))"
proof -
  have n: "ncols x_example = 2" and l: "length (rows x_example) = 2"
    by (simp_all add: x_example_def)
  from predict_argmax[OF built_simple_example wf_x_example n] l
  have "\<exists>logits labels. forward (model simple_example) x_example = Inr logits
         \<and> predict simple_example x_example = Inr labels \<and> length labels = 2
         \<and> labels ! 0 < 4 \<and> labels ! 1 < 4
         \<and> labels ! 0 = argmax_row (rows logits ! 0)
         \<and> labels ! 1 = argmax_row (rows logits ! 1)"
    by (metis one_less_numeral_iff semiring_norm(76) zero_less_numeral)
  with built_simple_example wf_x_example n show ?thesis by blast
qed

section \<open>Accuracy\<close>

lemma eq_sum_same_length:
  "length p = length y \<Longrightarrow>
   eq_sum p y = Inr (length (filter (\<lambda>(a, b). int a = b) (zip p y)))"
  by (simp add: eq_sum_def)

lemma filter_zip_le: "length (filter P (zip p y)) \<le> length y"
proof -
  have "length (filter P (zip p y)) \<le> length (zip p y)" by (rule length_filter_le)
  then show ?thesis by simp
qed

lemma filter_zip_all: "length (filter (\<lambda>(a, b). int a = b) (zip p (map int p))) = length p"
  by (induction p) simp_all

lemma accuracy_empty: "\<exists>e. accuracy t [] = Inl e"
  by (auto simp: accuracy_def eq_sum_def py_truediv_def split: sum.splits)

lemma transform_input_call_pure:
  "v \<noteq> Generic \<Longrightarrow> transform_input_call v bt = (Inr (), fst bt)"
  by (cases v) (simp_all add: transform_input_call_def simple_transform_input_def)

text \<open>
  C7. For a batch of \<open>B > 0\<close> instances with one label each, the accuracy the step functions
  compute is the number of instances whose arg-max of the logits equals the label, divided by
  \<open>B\<close>; it lies in \<open>[0, 1]\<close>, it is exactly 1 when the predicted labels are the given labels,
  and it is the accuracy every step function that returns reports.
\<close>

theorem accuracy_in_unit_interval:
  assumes "built c d C" "wf_tensor x" "ncols x = d" "length y = length (rows x)" "rows x \<noteq> []"
  shows "\<exists>logits acc. forward (model c) x = Inr logits \<and> accuracy logits y = Inr acc
           \<and> acc = real (length (filter (\<lambda>(a, b). int a = b)
                                   (zip (map argmax_row (rows logits)) y)))
                   / real (length (rows x))
           \<and> 0 \<le> acc \<and> acc \<le> 1
           \<and> (\<forall>labels. predict c x = Inr labels \<and> map int labels = y \<longrightarrow> acc = 1)
           \<and> (\<forall>out r x'. step out c (x, y) = (Inr r, x') \<longrightarrow> (\<exists>loss. r = out loss acc))"
proof -
  from built_forward[OF assms(1-3)] obtain logits where
    f: "forward (model c) x = Inr logits" and n: "ncols logits = C"
    and l: "length (rows logits) = length (rows x)" by blast
  have C: "0 < C" and k: "kind c \<noteq> Generic" using built_wf[OF assms(1)] by simp_all
  let ?labels = "map argmax_row (rows logits)"
  let ?k = "length (filter (\<lambda>(a, b). int a = b) (zip ?labels y))"
  let ?acc = "real ?k / real (length (rows x))"
  have B: "0 < length y" using assms(4,5) by simp
  have a: "accuracy logits y = Inr ?acc"
    using n C l assms(4) B
    by (simp add: accuracy_def argmax_dim1_def eq_sum_same_length py_truediv_def)
  have le: "?k \<le> length (rows x)" using filter_zip_le[of _ ?labels y] assms(4) by simp
  have r0: "0 \<le> ?acc" by simp
  have r1: "?acc \<le> 1" using le B assms(4) by (simp add: divide_le_eq_1)
  have m: "\<forall>labels. predict c x = Inr labels \<and> map int labels = y \<longrightarrow> ?acc = 1"
  proof (intro allI impI)
    fix labels assume h: "predict c x = Inr labels \<and> map int labels = y"
    then have "labels = ?labels" using f n C by (simp add: predict_def argmax_dim1_def)
    with h have "y = map int ?labels" by simp
    then have "?k = length ?labels" using filter_zip_all[of ?labels] by simp
    then show "?acc = 1" using l B assms(4) by simp
  qed
  have s: "\<forall>out r x'. step out c (x, y) = (Inr r, x') \<longrightarrow> (\<exists>loss. r = out loss ?acc)"
    using f a k
    by (auto simp: step_def step_body_def loss_and_acc_def transform_input_call_pure
             split: sum.splits prod.splits)
  from f a r0 r1 m s show ?thesis by blast
qed

theorem accuracy_in_unit_interval_witness:
  "built simple_example 2 4 \<and> wf_tensor x_example \<and> ncols x_example = 2
   \<and> length [0, 0 :: int] = length (rows x_example) \<and> rows x_example \<noteq> []
   \<and> (\<exists>logits acc. forward (model simple_example) x_example = Inr logits
         \<and> accuracy logits [0, 0] = Inr acc \<and> 0 \<le> acc \<and> acc \<le> 1 \<and> acc = 1)"
proof -
  have n: "ncols x_example = 2" and l: "length [0, 0 :: int] = length (rows x_example)"
    and e: "rows x_example \<noteq> []"
    by (simp_all add: x_example_def)
  have p: "predict simple_example x_example = Inr [0, 0] \<and> map int [0, 0] = [0, 0]"
    by (simp add: predict_x_example)
  from accuracy_in_unit_interval[OF built_simple_example wf_x_example n l e]
  obtain logits acc where
    f: "forward (model simple_example) x_example = Inr logits"
    and a: "accuracy logits [0, 0] = Inr acc" and b: "0 \<le> acc" "acc \<le> 1"
    and m: "\<forall>labels. predict simple_example x_example = Inr labels \<and> map int labels = [0, 0]
              \<longrightarrow> acc = 1"
    by blast
  from spec[OF m, of "[0, 0]"] p have "acc = 1" by simp
  with f a b have "\<exists>logits acc. forward (model simple_example) x_example = Inr logits
         \<and> accuracy logits [0, 0] = Inr acc \<and> 0 \<le> acc \<and> acc \<le> 1 \<and> acc = 1"
    by blast
  with built_simple_example wf_x_example n l e show ?thesis by blast
qed

section \<open>The loss in exact arithmetic\<close>

lemma exp_le_sum_list: "c < length r \<Longrightarrow> exp (r ! c) \<le> sum_list (map exp (r :: real list))"
proof -
  assume "c < length r"
  then have "exp (r ! c) \<in> set (map exp r)" by (metis length_map nth_map nth_mem)
  moreover have "\<forall>v \<in> set (map exp r). 0 \<le> v" by auto
  ultimately show ?thesis by (meson member_le_sum_list)
qed

lemma nll_nonneg: "c < length r \<Longrightarrow> 0 \<le> nll r c"
proof -
  assume c: "c < length r"
  have "ln (exp (r ! c)) \<le> ln (sum_list (map exp r))"
    using exp_le_sum_list[OF c] by (intro ln_mono) (simp_all add: less_le_trans[OF exp_gt_zero])
  then show ?thesis by (simp add: nll_def)
qed

lemma loss_func_nonneg:
  assumes w: "wf_tensor t" and l: "length y = length (rows t)" and b: "y \<noteq> []"
    and v: "list_all (\<lambda>c. 0 \<le> c \<and> c < int (ncols t)) y"
  shows "\<exists>v. loss_func t y = Inr (Fin v) \<and> 0 \<le> v"
proof -
  let ?kept = "filter (\<lambda>(r, c). c \<noteq> - 100) (zip (rows t) y)"
  have all: "?kept = zip (rows t) y"
  proof -
    have "c \<noteq> - 100" if "(r, c) \<in> set (zip (rows t) y)" for r c
    proof -
      from that have "c \<in> set y" by (rule set_zip_rightD)
      with v have "0 \<le> c" by (simp add: list_all_iff)
      then show ?thesis by simp
    qed
    then show ?thesis by (auto simp: filter_id_conv)
  qed
  have v': "list_all (\<lambda>c. c = - 100 \<or> (0 \<le> c \<and> c < int (ncols t))) y"
    using v by (auto simp: list_all_iff)
  have n: "length (zip (rows t) y) \<noteq> 0" using l b by (cases y) auto
  have "\<forall>p \<in> set (zip (rows t) y). 0 \<le> (case p of (r, c) \<Rightarrow> nll r (nat c))"
  proof
    fix p assume p: "p \<in> set (zip (rows t) y)"
    obtain r c where rc: "p = (r, c)" by (cases p)
    have "r \<in> set (rows t)" "c \<in> set y" using p rc by (auto dest: set_zip_leftD set_zip_rightD)
    then have "length r = ncols t" "0 \<le> c" "c < int (ncols t)"
      using w v by (auto simp: wf_tensor_def list_all_iff)
    then have "nat c < length r" by simp
    from nll_nonneg[OF this] rc show "0 \<le> (case p of (r, c) \<Rightarrow> nll r (nat c))" by simp
  qed
  then have s: "0 \<le> sum_list (map (\<lambda>(r, c). nll r (nat c)) (zip (rows t) y))"
    by (intro sum_list_nonneg) auto
  have "loss_func t y
          = Inr (Fin (sum_list (map (\<lambda>(r, c). nll r (nat c)) (zip (rows t) y))
                      / real (length (zip (rows t) y))))"
    using l v' n unfolding loss_func_def Let_def all by (simp add: rdiv_def)
  with s show ?thesis by simp
qed

text \<open>
  On a batch of \<open>B > 0\<close> instances of the input dimension with one valid class index each,
  every step function of the two subclasses returns, and the loss it reports is a non-negative
  real number. This is a statement of exact arithmetic: whether the machine value is finite
  depends on rounding and overflow in the logits, which are not modelled here.
\<close>

lemma step_returns_nonneg_loss:
  assumes "built c d C" "wf_tensor x" "ncols x = d" "length y = length (rows x)" "y \<noteq> []"
    and "list_all (\<lambda>k. 0 \<le> k \<and> k < int C) y"
  shows "\<exists>v acc. 0 \<le> v \<and> step out c (x, y) = (Inr (out (Fin v) acc), x)"
proof -
  from built_forward[OF assms(1-3)] obtain logits where
    f: "forward (model c) x = Inr logits" and w: "wf_tensor logits" and n: "ncols logits = C"
    and l: "length (rows logits) = length (rows x)" by blast
  have C: "0 < C" and k: "kind c \<noteq> Generic" using built_wf[OF assms(1)] by simp_all
  have "length y \<noteq> 0" using assms(5) by simp
  then obtain acc where a: "accuracy logits y = Inr acc"
    using n C l assms(4)
    by (simp add: accuracy_def argmax_dim1_def eq_sum_same_length py_truediv_def)
  from loss_func_nonneg[OF w] assms(4,5,6) l n obtain v where
    v: "loss_func logits y = Inr (Fin v)" "0 \<le> v" by auto
  have "step out c (x, y) = (Inr (out (Fin v) acc), x)"
    using f a v(1) k
    by (simp add: step_def step_body_def loss_and_acc_def transform_input_call_pure)
  with v(2) show ?thesis by blast
qed

section \<open>The empty batch\<close>

text \<open>
  C8. On an empty batch no step function returns a result. For the two subclasses, given a
  tensor of no rows and of the model's input dimension, the step reaches
  \<^verbatim>\<open>acc = correct_predictions / total_predictions\<close> with \<open>total_predictions = len(y) = 0\<close>
  and fails there with a division by zero; the caller's tensor is as it was.
\<close>

theorem empty_batch_division_by_zero:
  assumes "rows x = []" "y = []"
  shows "(\<exists>e. fst (training_step c (x, y)) = Inl e)
       \<and> (\<exists>e. fst (validation_step c (x, y)) = Inl e)
       \<and> (\<exists>e. fst (test_step c (x, y)) = Inl e)
       \<and> (built c d C \<and> ncols x = d \<longrightarrow>
            training_step c (x, y) = (Inl ZeroDivisionError, x)
          \<and> validation_step c (x, y) = (Inl ZeroDivisionError, x)
          \<and> test_step c (x, y) = (Inl ZeroDivisionError, x))"
proof -
  have g: "\<exists>e. fst (step out c (x, y)) = Inl e" for out
  proof (cases "transform_input_call (kind c) (x, y)")
    case (Pair res x')
    show ?thesis
    proof (cases res)
      case (Inl e)
      with Pair show ?thesis by (simp add: step_def)
    next
      case (Inr u)
      have "\<exists>e. loss_and_acc (model c) (x', y) = Inl e"
        using accuracy_empty assms(2)
        by (auto simp: loss_and_acc_def split: sum.splits) (metis sum.distinct(1))
      with Pair Inr assms(2) show ?thesis by (auto simp: step_def step_body_def)
    qed
  qed
  have b: "step out c (x, y) = (Inl ZeroDivisionError, x)" if h: "built c d C" "ncols x = d" for out
  proof -
    have w: "wf_tensor x" using assms(1) by (simp add: wf_tensor_def)
    from built_forward[OF h(1) w h(2)] obtain logits where
      f: "forward (model c) x = Inr logits" and n: "ncols logits = C"
      and l: "length (rows logits) = length (rows x)" by blast
    have C: "0 < C" and k: "kind c \<noteq> Generic" using built_wf[OF h(1)] by simp_all
    have "accuracy logits y = Inl ZeroDivisionError"
      using n C l assms by (simp add: accuracy_def argmax_dim1_def eq_sum_def py_truediv_def)
    then show ?thesis using f k
      by (simp add: step_def step_body_def loss_and_acc_def transform_input_call_pure)
  qed
  show ?thesis using g b by (simp add: training_step_def validation_step_def test_step_def)
qed

theorem empty_batch_division_by_zero_witness:
  "rows x_empty = [] \<and> ([] :: int list) = [] \<and> built simple_example 2 4 \<and> ncols x_empty = 2
   \<and> training_step simple_example (x_empty, []) = (Inl ZeroDivisionError, x_empty)
   \<and> validation_step simple_example (x_empty, []) = (Inl ZeroDivisionError, x_empty)
   \<and> test_step simple_example (x_empty, []) = (Inl ZeroDivisionError, x_empty)"
proof -
  have r: "rows x_empty = []" and n: "ncols x_empty = 2" by (simp_all add: x_empty_def)
  from empty_batch_division_by_zero[OF r refl, of simple_example 2 4] built_simple_example n r
  show ?thesis by simp
qed

section \<open>The discarded call of the preprocessing\<close>

lemma upt2: "[0..<2] = [0, 1]"
  by (simp add: upt_rec)

lemma upt3: "[0..<3] = [0, 1, 2]"
  by (simp add: upt_rec)

lemma median_x_outlier: "median_dim0 x_outlier = Inr [1, 1]"
  by (simp add: median_dim0_def x_outlier_def col_def torch_median_def upt2)

lemma is_outlier_x_outlier:
  "is_outlier x_outlier [1, 1] = [[True, True], [False, False], [False, False]]"
  by (simp add: is_outlier_def x_outlier_def upt2)

lemma masked_x_outlier:
  "masked_assign x_outlier [[True, True], [False, False], [False, False]] [1, 1] = Inr x_clipped"
  by (simp add: masked_assign_def x_outlier_def x_clipped_def count_true_def rank_before_def
        upt2 upt3)

lemma transform_x_outlier:
  "transform_input_call Generic (x_outlier, y) = (Inr (), x_clipped)"
  by (simp add: transform_input_call_def generic_transform_input_def median_x_outlier
        is_outlier_x_outlier masked_x_outlier)

lemma argmax_row_pair: "argmax_row [a, b] = (if b \<le> a then 0 else 1)"
  by (auto simp: argmax_row_def max_def)

lemma loss_clipped:
  "loss_and_acc [] (x_clipped, [0, 0, 0]) = Inr (Fin (nll [1, 1] 0), 1)"
  by (simp add: loss_and_acc_def accuracy_def argmax_dim1_def x_clipped_def eq_sum_def
        py_truediv_def loss_func_def rdiv_def argmax_row_pair)

lemma loss_outlier:
  "loss_and_acc [] (x_outlier, [0, 0, 0])
     = Inr (Fin ((nll [50, 100] 0 + (nll [1, 1] 0 + nll [1, 1] 0)) / 3), 2 / 3)"
  by (simp add: loss_and_acc_def accuracy_def argmax_dim1_def x_outlier_def eq_sum_def
        py_truediv_def loss_func_def rdiv_def argmax_row_pair)

lemma nll_small: "nll [1, 1] 0 < 1"
proof -
  have "exp (1::real) + exp 1 = 2 * exp 1" by simp
  then have "ln (exp (1::real) + exp 1) = ln 2 + 1" by (simp add: ln_mult)
  then show ?thesis using ln_2_less_1 by (simp add: nll_def)
qed

lemma nll_large: "50 \<le> nll [50, 100] 0"
proof -
  have "exp (100::real) \<le> exp 50 + exp 100" by simp
  then have "ln (exp (100::real)) \<le> ln (exp 50 + exp 100)"
    by (intro ln_mono) (simp_all add: add_pos_pos)
  then show ?thesis by (simp add: nll_def)
qed

text \<open>
  C1, as stated, fails for the base class: its \<^verbatim>\<open>transform_input\<close> writes the medians over the
  first row of the caller's tensor, \<^verbatim>\<open>x, y = batch\<close> then reads that same tensor, and
  \<^verbatim>\<open>training_step\<close> returns the loss of the overwritten rows, which is not the loss returned
  with the call left out.
\<close>

theorem step_transform_counterexample:
  "returned_of (training_step generic_example (x_outlier, [0, 0, 0]))
     \<noteq> returned_of (training_step_no_transform generic_example (x_outlier, [0, 0, 0]))"
proof -
  have a: "returned_of (training_step generic_example (x_outlier, [0, 0, 0]))
             = Inr [(''loss'', Fin (nll [1, 1] 0))]"
    by (simp add: returned_of_def training_step_def step_def generic_example_def
          LitGenericClassifier_def transform_x_outlier step_body_def loss_clipped train_out_def)
  have b: "returned_of (training_step_no_transform generic_example (x_outlier, [0, 0, 0]))
             = Inr [(''loss'', Fin ((nll [50, 100] 0 + (nll [1, 1] 0 + nll [1, 1] 0)) / 3))]"
    by (simp add: returned_of_def training_step_no_transform_def generic_example_def
          LitGenericClassifier_def step_body_def loss_outlier train_out_def)
  have "nll [1, 1] 0 \<noteq> (nll [50, 100] 0 + (nll [1, 1] 0 + nll [1, 1] 0)) / 3"
    using nll_small nll_large by simp
  with a b show ?thesis by simp
qed

text \<open>
  C1, amended. For an instance of the simple or of the digits subclass, and for any
  classifier on a batch that the base class's \<^verbatim>\<open>transform_input\<close> returns from without
  changing the feature tensor, every step function gives the result it gives with the call of
  \<^verbatim>\<open>transform_input\<close> left out: the same returned value or error, the same logged loss and
  accuracy, the same contents of the caller's tensor.
\<close>

theorem step_without_transform:
  assumes "kind c \<noteq> Generic \<or> transform_input_call Generic bt = (Inr (), fst bt)"
  shows "training_step c bt = training_step_no_transform c bt
       \<and> validation_step c bt = validation_step_no_transform c bt
       \<and> test_step c bt = test_step_no_transform c bt"
proof -
  have "transform_input_call (kind c) bt = (Inr (), fst bt)"
    using assms transform_input_call_pure[of "kind c" bt] by (cases "kind c") auto
  then show ?thesis
    by (simp add: training_step_def validation_step_def test_step_def step_def
          training_step_no_transform_def validation_step_no_transform_def
          test_step_no_transform_def)
qed

theorem step_without_transform_witness:
  "kind simple_example \<noteq> Generic
   \<and> training_step simple_example (x_example, [0, 1])
       = training_step_no_transform simple_example (x_example, [0, 1])
   \<and> validation_step simple_example (x_example, [0, 1])
       = validation_step_no_transform simple_example (x_example, [0, 1])
   \<and> test_step simple_example (x_example, [0, 1])
       = test_step_no_transform simple_example (x_example, [0, 1])"
proof -
  have k: "kind simple_example \<noteq> Generic"
    by (simp add: simple_example_def LitSimpleClassifier_def)
  then have "kind simple_example \<noteq> Generic
      \<or> transform_input_call Generic (x_example, [0, 1]) = (Inr (), fst (x_example, [0, 1]))"
    by simp
  from step_without_transform[OF this] k show ?thesis by simp
qed

section \<open>The digits variant's preprocessing\<close>

lemma length_concat_rows:
  "list_all (\<lambda>r. length r = d) xss \<Longrightarrow> length (concat xss) = length xss * d"
  by (induction xss) simp_all

lemma sum_list_concat_rows: "sum_list (concat xss) = (\<Sum>r\<leftarrow>xss. sum_list (r::real list))"
  by (induction xss) simp_all

lemma sum_list_map_concat: "sum_list (map f (concat xss)) = (\<Sum>r\<leftarrow>xss. sum_list (map f r))"
  by (induction xss) simp_all

lemma sum_list_shift_scale:
  "sum_list (map (\<lambda>v. (v - a) / s) xs) = (sum_list xs - real (length xs) * a) / (s::real)"
  by (induction xs) (simp_all add: add_divide_distrib diff_divide_distrib algebra_simps)

lemma sum_list_square_scale:
  "sum_list (map (\<lambda>v. ((v - a) / s)\<^sup>2) xs) = sum_list (map (\<lambda>v. (v - a)\<^sup>2) xs) / (s::real)\<^sup>2"
  by (induction xs) (simp_all add: power_divide add_divide_distrib)

lemma torch_mean_Fin: "xs \<noteq> [] \<Longrightarrow> torch_mean xs = Fin (sum_list xs / real (length xs))"
  by (simp add: torch_mean_def rdiv_def)

lemma standardized_list:
  assumes n: "2 \<le> length xs" and s: "torch_std xs = Fin s" and s0: "s \<noteq> 0"
  defines "zs \<equiv> map (\<lambda>v. (v - sum_list xs / real (length xs)) / s) xs"
  shows "map (\<lambda>v. fdivide (fsub v (torch_mean xs)) (torch_std xs)) xs = map Fin zs"
    and "torch_mean zs = Fin 0" and "torch_std zs = Fin 1"
proof -
  let ?n = "real (length xs)"
  let ?mu = "sum_list xs / ?n"
  let ?ss = "sum_list (map (\<lambda>v. (v - ?mu)\<^sup>2) xs)"
  have ne: "xs \<noteq> []" using n by auto
  have n1: "?n - 1 > 0" using n by simp
  have sdef: "s = sqrt (?ss / (?n - 1))" using s n by (simp add: torch_std_def)
  have ss0: "0 \<le> ?ss" by (rule sum_list_nonneg) auto
  have s2: "s\<^sup>2 = ?ss / (?n - 1)" using sdef ss0 n1 by simp
  show "map (\<lambda>v. fdivide (fsub v (torch_mean xs)) (torch_std xs)) xs = map Fin zs"
    using s s0 by (simp add: torch_mean_Fin[OF ne] zs_def rdiv_def)
  have len: "length zs = length xs" by (simp add: zs_def)
  have sum0: "sum_list zs = 0"
    using ne by (simp add: zs_def sum_list_shift_scale)
  show "torch_mean zs = Fin 0" using sum0 len ne by (simp add: torch_mean_def rdiv_def)
  have "sum_list (map (\<lambda>z. (z - sum_list zs / real (length zs))\<^sup>2) zs)
          = sum_list (map (\<lambda>z. z\<^sup>2) zs)"
    by (simp add: sum0)
  also have "\<dots> = ?ss / s\<^sup>2"
    by (simp add: zs_def comp_def sum_list_square_scale)
  also have "\<dots> = ?n - 1" using s2 s0 n1 by (simp add: field_simps)
  finally have "sum_list (map (\<lambda>z. (z - sum_list zs / real (length zs))\<^sup>2) zs) = ?n - 1" .
  then show "torch_std zs = Fin 1" using n n1 len by (simp add: torch_std_def)
qed


lemma fdivide_NaN: "fdivide a NaN = NaN"
  by (cases a) simp_all

lemma concat_mean:
  assumes "wf_tensor x" "1 \<le> length (rows x) * ncols x"
  shows "torch_mean (concat (rows x)) = Fin (global_mean x)"
proof -
  have l: "length (concat (rows x)) = length (rows x) * ncols x"
    using assms(1) by (simp add: wf_tensor_def length_concat_rows)
  with assms(2) have "length (concat (rows x)) \<noteq> 0" by linarith
  then have "concat (rows x) \<noteq> []" by (metis list.size(3))
  from torch_mean_Fin[OF this] l show ?thesis
    by (simp add: global_mean_def sum_list_concat_rows)
qed

lemma concat_std:
  assumes "wf_tensor x"
  shows "torch_std (concat (rows x)) =
           (if length (rows x) * ncols x \<le> 1 then NaN else Fin (global_std x))"
proof -
  have l: "length (concat (rows x)) = length (rows x) * ncols x"
    using assms(1) by (simp add: wf_tensor_def length_concat_rows)
  have m: "sum_list (concat (rows x)) / real (length (rows x) * ncols x) = global_mean x"
    by (simp add: global_mean_def sum_list_concat_rows)
  show ?thesis
    unfolding torch_std_def l m global_std_def
    by (simp add: sum_list_map_concat)
qed

text \<open>
  C3. For every batch \<open>(x, y)\<close> of a feature tensor of shape \<open>(B, d)\<close>, the digits
  variant's \<^verbatim>\<open>transform_input\<close> returns the labels as they are and, in place of each entry
  \<open>v\<close> of \<open>x\<close>, the quotient of \<open>v\<close> minus the one mean of all \<open>B * d\<close> entries by the one standard
  deviation of all of them (no per-column statistic is used); the entries are NaN when there
  are fewer than two of them, and the quotient is the library's division when the deviation
  is zero. The argument tensor is left alone. When the deviation is defined and not zero the
  entries of the result, taken together, have mean 0 and standard deviation 1.
\<close>

theorem digits_transform_input_global:
  assumes "wf_tensor x"
  shows "digits_transform_input (x, y) =
           (\<lparr>ncols = ncols x,
             rows = map (map (\<lambda>v. if length (rows x) * ncols x \<le> 1 then NaN
                                   else rdiv (v - global_mean x) (global_std x)))
                        (rows x)\<rparr>, y)
       \<and> transform_input_call Digits (x, y) = (Inr (), x)
       \<and> (2 \<le> length (rows x) * ncols x \<and> global_std x \<noteq> 0 \<longrightarrow>
            (\<exists>zs. concat (rows (fst (digits_transform_input (x, y)))) = map Fin zs
                 \<and> torch_mean zs = Fin 0 \<and> torch_std zs = Fin 1))"
proof (intro conjI impI)
  show "digits_transform_input (x, y) =
           (\<lparr>ncols = ncols x,
             rows = map (map (\<lambda>v. if length (rows x) * ncols x \<le> 1 then NaN
                                   else rdiv (v - global_mean x) (global_std x)))
                        (rows x)\<rparr>, y)"
  proof (cases "length (rows x) * ncols x \<le> 1")
    case True
    then show ?thesis
      by (simp add: digits_transform_input_def concat_std[OF assms] fdivide_NaN)
  next
    case False
    then have "1 \<le> length (rows x) * ncols x" by linarith
    from concat_mean[OF assms this] False show ?thesis
      by (simp add: digits_transform_input_def concat_std[OF assms])
  qed
next
  show "transform_input_call Digits (x, y) = (Inr (), x)"
    by (simp add: transform_input_call_def)
next
  assume h: "2 \<le> length (rows x) * ncols x \<and> global_std x \<noteq> 0"
  let ?xs = "concat (rows x)"
  have l: "length ?xs = length (rows x) * ncols x"
    using assms by (simp add: wf_tensor_def length_concat_rows)
  have n: "2 \<le> length ?xs" using h l by simp
  have s: "torch_std ?xs = Fin (global_std x)" using h by (simp add: concat_std[OF assms])
  have g: "global_std x \<noteq> 0" using h by simp
  let ?zs = "map (\<lambda>v. (v - sum_list ?xs / real (length ?xs)) / global_std x) ?xs"
  have "concat (rows (fst (digits_transform_input (x, y))))
          = map (\<lambda>v. fdivide (fsub v (torch_mean ?xs)) (torch_std ?xs)) ?xs"
    by (simp add: digits_transform_input_def map_concat)
  also have "\<dots> = map Fin ?zs" by (rule standardized_list(1)[OF n s g])
  finally have "concat (rows (fst (digits_transform_input (x, y)))) = map Fin ?zs" .
  with standardized_list(2,3)[OF n s g]
  show "\<exists>zs. concat (rows (fst (digits_transform_input (x, y)))) = map Fin zs
             \<and> torch_mean zs = Fin 0 \<and> torch_std zs = Fin 1"
    by blast
qed

lemma global_mean_x_example: "global_mean x_example = 5 / 2"
  by (simp add: global_mean_def x_example_def)

lemma global_std_x_example: "global_std x_example = sqrt (5 / 3)"
  by (simp add: global_std_def global_mean_x_example) (simp add: x_example_def power2_eq_square)

theorem digits_transform_input_global_witness:
  "wf_tensor x_example
   \<and> digits_transform_input (x_example, [0, 1]) =
       (\<lparr>ncols = 2,
         rows = [[rdiv (1 - 5 / 2) (sqrt (5 / 3)), rdiv (2 - 5 / 2) (sqrt (5 / 3))],
                 [rdiv (3 - 5 / 2) (sqrt (5 / 3)), rdiv (4 - 5 / 2) (sqrt (5 / 3))]]\<rparr>, [0, 1])
   \<and> transform_input_call Digits (x_example, [0, 1]) = (Inr (), x_example)
   \<and> (\<exists>zs. concat (rows (fst (digits_transform_input (x_example, [0, 1])))) = map Fin zs
          \<and> torch_mean zs = Fin 0 \<and> torch_std zs = Fin 1)"
proof -
  note t = digits_transform_input_global[OF wf_x_example, of "[0, 1]"]
  have r: "rows x_example = [[1, 2], [3, 4]]" "ncols x_example = 2"
    by (simp_all add: x_example_def)
  have n: "2 \<le> length (rows x_example) * ncols x_example \<and> global_std x_example \<noteq> 0"
    by (simp add: global_std_x_example) (simp add: x_example_def)
  have a: "digits_transform_input (x_example, [0, 1]) =
       (\<lparr>ncols = 2,
         rows = [[rdiv (1 - 5 / 2) (sqrt (5 / 3)), rdiv (2 - 5 / 2) (sqrt (5 / 3))],
                 [rdiv (3 - 5 / 2) (sqrt (5 / 3)), rdiv (4 - 5 / 2) (sqrt (5 / 3))]]\<rparr>, [0, 1])"
    using t[THEN conjunct1] unfolding global_mean_x_example global_std_x_example r by simp
  from t n a wf_x_example show ?thesis by blast
qed

section \<open>The base class's preprocessing\<close>

subsection \<open>A single feature column\<close>













subsection \<open>Concrete batches\<close>











text \<open>
  With two columns the median vector has two elements and the masked assignment raises unless
  exactly two entries are selected. It raises on a batch with one outlier, and on the batch
  \<open>[[1, 2], [3, 4]]\<close>, which has none; the tensor is as before.
\<close>

lemma transform_x_one_outlier:
  "generic_transform_input (x_one_outlier, y) = (Inl RuntimeError, x_one_outlier)"
  by (simp add: generic_transform_input_def median_dim0_def masked_assign_def is_outlier_def
        x_one_outlier_def col_def torch_median_def count_true_def upt2 upt3)

lemma transform_x_example:
  "generic_transform_input (x_example, y) = (Inl RuntimeError, x_example)"
  by (simp add: generic_transform_input_def median_dim0_def masked_assign_def is_outlier_def
        x_example_def col_def torch_median_def count_true_def upt2)

subsection \<open>Clipping and standardization\<close>




subsection \<open>The write into the caller's tensor\<close>




section \<open>The simple variant's preprocessing\<close>

text \<open>
  C4. For every batch, \<^verbatim>\<open>LitSimpleClassifier.transform_input\<close> is the identity: the batch
  it returns is the batch it was given, features and labels unmodified, and the call leaves
  the caller's feature tensor as it was.
\<close>

theorem simple_transform_input_identity:
  "simple_transform_input (x, y) = (x, y) \<and> transform_input_call Simple (x, y) = (Inr (), x)"
  by (simp add: simple_transform_input_def transform_input_call_def)

end
